theory Spec2Isabelle
  imports Main "HOL-Library.Word"
begin

section \<open>Python values used by gdoc-shell\<close>

subsection \<open>Strings\<close>

text \<open>
  A Python \<open>str\<close> is modelled as a \<^typ>\<open>string\<close>; a \<^typ>\<open>char\<close> stands for the code
  point of the same number (U+0000 to U+00FF).  \<open>str.isspace\<close>, \<open>str.split()\<close> with no
  separator and \<open>str.strip()\<close> with no argument all use the same whitespace test; on this
  range it holds for U+0009..U+000D, U+001C..U+0020, U+0085 and U+00A0.
\<close>

definition isspace :: "char \<Rightarrow> bool" where
  "isspace c =
     (let n = (of_char c :: nat)
      in (9 \<le> n \<and> n \<le> 13) \<or> (28 \<le> n \<and> n \<le> 32) \<or> n = 133 \<or> n = 160)"

text \<open>
  \<open>s.split()\<close>: scan left to right, a run of whitespace ends the token being collected,
  empty tokens are never produced.  \<open>tok\<close> is the token collected so far.
\<close>

fun split_from :: "string \<Rightarrow> string \<Rightarrow> string list" where
  "split_from [] tok = (if tok = [] then [] else [tok])"
| "split_from (c # cs) tok =
     (if isspace c then (if tok = [] then split_from cs [] else tok # split_from cs [])
      else split_from cs (tok @ [c]))"

definition str_split :: "string \<Rightarrow> string list" where
  "str_split s = split_from s []"

text \<open>\<open>s.strip()\<close>: leading and trailing whitespace removed.\<close>

definition str_strip :: "string \<Rightarrow> string" where
  "str_strip s = rev (dropWhile isspace (rev (dropWhile isspace s)))"

type_synonym bytes = "8 word list"

subsection \<open>Exceptions\<close>

datatype py_error =
    KeyError
  | IndexError
  | TypeError
  | AttributeError
  | ValueError string
  | FileNotFoundError
  | IsADirectoryError
  | NotADirectoryError
  | UnicodeDecodeError
  | ImportError
  | SystemExit int
  | OtherError string

subsection \<open>JSON values: the documents and requests of the Docs API\<close>

text \<open>
  The Python client hands documents over as nested \<open>dict\<close>s and \<open>list\<close>s, and the
  requests built by the program are such values too.  A \<open>dict\<close> is an association list
  read with \<^const>\<open>map_of\<close>; numbers are integers (every number the program reads or
  writes is an index).
\<close>

datatype json =
    JNull
  | JBool bool
  | JInt int
  | JStr string
  | JList "json list"
  | JDict "(string \<times> json) list"

datatype subscript = Key string | Idx int

text \<open>\<open>xs[i]\<close> on a sequence: a negative index counts from the end, out of range raises.\<close>

definition seq_index :: "'a list \<Rightarrow> int \<Rightarrow> py_error + 'a" where
  "seq_index xs i =
     (if 0 \<le> i \<and> i < int (length xs) then Inr (xs ! nat i)
      else if i < 0 \<and> - int (length xs) \<le> i then Inr (xs ! nat (int (length xs) + i))
      else Inl IndexError)"

text \<open>\<open>v[k]\<close>, with the exception Python raises where the subscript does not apply.\<close>

fun getitem :: "json \<Rightarrow> subscript \<Rightarrow> py_error + json" where
  "getitem (JDict kvs) (Key k) = (case map_of kvs k of None \<Rightarrow> Inl KeyError | Some v \<Rightarrow> Inr v)"
| "getitem (JDict kvs) (Idx i) = Inl KeyError"
| "getitem (JList xs) (Idx i) = seq_index xs i"
| "getitem (JList xs) (Key k) = Inl TypeError"
| "getitem (JStr s) (Idx i) = map_sum id (\<lambda>c. JStr [c]) (seq_index s i)"
| "getitem (JStr s) (Key k) = Inl TypeError"
| "getitem v k = Inl TypeError"

text \<open>A chain of subscripts \<open>v[k1][k2]...\<close>, stopping at the first exception.\<close>

fun getpath :: "json \<Rightarrow> subscript list \<Rightarrow> py_error + json" where
  "getpath v [] = Inr v"
| "getpath v (k # ks) = (case getitem v k of Inl e \<Rightarrow> Inl e | Inr u \<Rightarrow> getpath u ks)"

text \<open>\<open>v + 1\<close> (a \<open>bool\<close> is an \<open>int\<close> in Python) and \<open>len(v)\<close>.\<close>

fun add_one :: "json \<Rightarrow> py_error + int" where
  "add_one (JInt n) = Inr (n + 1)"
| "add_one (JBool b) = Inr ((if b then 1 else 0) + 1)"
| "add_one v = Inl TypeError"

fun len :: "json \<Rightarrow> py_error + int" where
  "len (JList xs) = Inr (int (length xs))"
| "len (JDict kvs) = Inr (int (card (fst ` set kvs)))"
| "len (JStr s) = Inr (int (length s))"
| "len v = Inl TypeError"

section \<open>The world the program acts on\<close>

text \<open>
  The file system maps a path to what is stored there; relative paths are keys as they
  are written (the working directory is fixed).  A text file holds the characters
  written to it.
\<close>

datatype node = File string | Dir

datatype level = INFO | WARNING

text \<open>
  What the program does to the outside, other than creating and writing the files it
  opens itself, is recorded as an event, oldest first: a record handed to the logger
  (format and arguments; the line the handler appends to the log file is not written into
  \<open>files\<close>), a call of \<open>subprocess.run\<close>, a document fetched, a batch of edits
  submitted, a file created on Drive.
\<close>

datatype event =
    LogRecord level string "string list"
  | SubprocessRun "string list"
  | DocumentsGet string
  | BatchUpdate string json
  | FilesCreate json string

record world =
  files :: "string \<Rightarrow> node option"
  events :: "event list"

definition emit :: "event \<Rightarrow> world \<Rightarrow> world" where
  "emit e w = w\<lparr>events := events w @ [e]\<rparr>"

text \<open>The events of \<open>w'\<close> that were not yet in \<open>w\<close>, and whether a process is among them.\<close>

definition new_events :: "world \<Rightarrow> world \<Rightarrow> event list" where
  "new_events w w' = drop (length (events w)) (events w')"

fun is_spawn :: "event \<Rightarrow> bool" where
  "is_spawn (SubprocessRun argv) = True"
| "is_spawn e = False"

text \<open>
  What the machine and the standard library answer: the outcome of running a process
  (\<open>subprocess.run\<close> with \<open>capture_output=True\<close>: the completed process, or the
  exception of a program that cannot be started), the UTF-8 decoder, the local time as
  \<open>datetime.datetime.now().strftime(format)\<close> prints it, the home directory that
  \<open>os.path.expanduser('~')\<close> names, \<open>argparse\<close>: given the declared arguments and
  the command line, the namespace or the exception it raises (\<open>SystemExit\<close> after printing
  usage or help), and what executing the \<open>import\<close> statements at the top of
  \<open>gdoc_shell.py\<close> does to the world (the interpreter may write bytecode caches; a package
  that is not installed raises \<open>ImportError\<close>).
\<close>

record completed_process =
  returncode :: int
  stdout :: bytes
  stderr :: bytes

datatype argument = Positional string

record host =
  subprocess_run :: "string list \<Rightarrow> py_error + completed_process"
  decode_utf8 :: "bytes \<Rightarrow> py_error + string"
  now_strftime :: "string \<Rightarrow> string"
  home_dir :: string
  parse_args :: "argument list \<Rightarrow> string list \<Rightarrow> py_error + (string \<times> string) list"
  run_imports :: "world \<Rightarrow> (py_error + unit) \<times> world"

section \<open>gdoc\_shell.py: the command gate\<close>

text \<open>
  Functions keep the names of the source without the leading underscore; a function that
  acts on the outside takes the world and returns the world it leaves.
\<close>

definition OUTPUT_INVALID_CMD :: string where
  "OUTPUT_INVALID_CMD =
     ''Command is not in the list of valid commands. Please add it to the config if you want to use it.''"

definition OUTPUT_NO_OUTPUT :: string where
  "OUTPUT_NO_OUTPUT = ''No output''"

text \<open>
  \<open>_execute_command(cmd, valid_commands)\<close>.  The result is \<open>None\<close> or a string, or the
  exception that \<open>subprocess.run\<close> or \<open>decode\<close> raised.
\<close>

definition execute_command ::
  "host \<Rightarrow> string \<Rightarrow> string set \<Rightarrow> world \<Rightarrow> (py_error + string option) \<times> world" where
  "execute_command h cmd valid_commands w =
     (let cmd_list = str_split cmd in
      if cmd_list = [] then (Inr None, w)
      else if hd cmd_list \<notin> valid_commands then
        (Inr (Some OUTPUT_INVALID_CMD),
         emit (LogRecord WARNING
                 ''Attempted command %s failed since is not in valid commands list'' [cmd]) w)
      else
        let w1 = emit (SubprocessRun cmd_list) w in
        case subprocess_run h cmd_list of
          Inl e \<Rightarrow> (Inl e, w1)
        | Inr result \<Rightarrow>
            (case decode_utf8 h (stdout result) of
               Inl e \<Rightarrow> (Inl e, w1)
             | Inr decoded \<Rightarrow>
                 let output = str_strip decoded;
                     w2 = emit (LogRecord INFO ''Output for command %s: %s'' [cmd, output]) w1
                 in (Inr (Some (if output \<noteq> [] then output else OUTPUT_NO_OUTPUT)), w2)))"

text \<open>Whether running the gate on \<open>cmd\<close> in world \<open>w\<close> starts a process.\<close>

definition spawns :: "host \<Rightarrow> string \<Rightarrow> string set \<Rightarrow> world \<Rightarrow> bool" where
  "spawns h cmd valid_commands w =
     list_ex is_spawn (new_events w (snd (execute_command h cmd valid_commands w)))"

section \<open>utils.py\<close>

subsection \<open>Files as Python's text mode sees them\<close>

definition LF :: char where
  "LF = CHR 0x0A"

definition CR :: char where
  "CR = CHR 0x0D"

definition slash :: char where
  "slash = CHR ''/''"

text \<open>The empty path names nothing.\<close>

definition node_at :: "(string \<Rightarrow> node option) \<Rightarrow> string \<Rightarrow> node option" where
  "node_at fs p = (if p = [] then None else fs p)"

text \<open>\<open>os.path.exists(p)\<close>.\<close>

definition path_exists :: "(string \<Rightarrow> node option) \<Rightarrow> string \<Rightarrow> bool" where
  "path_exists fs p = (node_at fs p \<noteq> None)"

text \<open>
  \<open>os.path.dirname(p)\<close>: everything up to the last slash, without its trailing slashes
  unless it consists of slashes only.
\<close>

definition dirname :: "string \<Rightarrow> string" where
  "dirname p =
     (let head = rev (dropWhile (\<lambda>c. c \<noteq> slash) (rev p))
      in if head \<noteq> [] \<and> \<not> list_all (\<lambda>c. c = slash) head
         then rev (dropWhile (\<lambda>c. c = slash) (rev head))
         else head)"

text \<open>
  A path can be reached only through directories.  \<open>parent_error fs p\<close> walks up from
  \<open>p\<close>: the working directory (empty \<open>dirname\<close>) and the root are always there; a
  regular file on the way raises \<open>NotADirectoryError\<close>, a missing directory
  \<open>FileNotFoundError\<close>.
\<close>

function parent_error :: "(string \<Rightarrow> node option) \<Rightarrow> string \<Rightarrow> py_error option" where
  "parent_error fs p =
     (let d = dirname p
      in if list_all (\<lambda>c. c = slash) d then None
         else case fs d of
                Some Dir \<Rightarrow> None
              | Some (File s) \<Rightarrow> Some NotADirectoryError
              | None \<Rightarrow> (case parent_error fs d of
                           Some e \<Rightarrow> Some e
                         | None \<Rightarrow> Some FileNotFoundError))"
  by pat_completeness auto
termination
proof (relation "measure (\<lambda>(fs, p). length p)")
  show "wf (measure (\<lambda>(fs :: string \<Rightarrow> node option, p :: string). length p))"
    by simp
next
  fix fs :: "string \<Rightarrow> node option" and p d :: string
  assume d: "d = dirname p" and a: "\<not> list_all (\<lambda>c. c = slash) d"
  define head where "head = rev (dropWhile (\<lambda>c. c \<noteq> slash) (rev p))"
  have len: "length head \<le> length p"
    using length_dropWhile_le [of "\<lambda>c. c \<noteq> slash" "rev p"] by (simp add: head_def)
  have dir: "d = (if head \<noteq> [] \<and> \<not> list_all (\<lambda>c. c = slash) head
         then rev (dropWhile (\<lambda>c. c = slash) (rev head)) else head)"
    by (simp add: d dirname_def head_def Let_def)
  have "length d < length p"
  proof (cases "head \<noteq> [] \<and> \<not> list_all (\<lambda>c. c = slash) head")
    case True
    then have ne: "rev head \<noteq> []" by simp
    have "hd (rev head) = slash"
      using ne hd_dropWhile [of "\<lambda>c. c \<noteq> slash" "rev p"]
      by (simp add: head_def)
    then have "length (dropWhile (\<lambda>c. c = slash) (rev head)) < length (rev head)"
      using ne by (cases "rev head") (auto simp add: le_imp_less_Suc length_dropWhile_le)
    with True dir len show ?thesis by simp
  next
    case False
    with dir a show ?thesis by (auto simp add: list_all_iff)
  qed
  then show "((fs, d), (fs, p)) \<in> measure (\<lambda>(fs, p). length p)"
    by simp
qed

declare parent_error.simps [simp del]

text \<open>\<open>open(p, 'r')\<close>: the text of the file.\<close>

definition open_read :: "(string \<Rightarrow> node option) \<Rightarrow> string \<Rightarrow> py_error + string" where
  "open_read fs p =
     (case node_at fs p of
        None \<Rightarrow> (case parent_error fs p of
                   Some e \<Rightarrow> Inl e
                 | None \<Rightarrow> Inl FileNotFoundError)
      | Some Dir \<Rightarrow> Inl IsADirectoryError
      | Some (File s) \<Rightarrow> Inr s)"

text \<open>
  \<open>open(p, 'w')\<close> creates the file or empties it; \<open>open(p, 'a')\<close> creates it or keeps
  what it holds.
\<close>

definition open_create ::
  "bool \<Rightarrow> (string \<Rightarrow> node option) \<Rightarrow> string \<Rightarrow> py_error + (string \<Rightarrow> node option)" where
  "open_create trunc fs p =
     (case node_at fs p of
        Some Dir \<Rightarrow> Inl IsADirectoryError
      | Some (File s) \<Rightarrow> Inr (if trunc then fs(p := Some (File [])) else fs)
      | None \<Rightarrow>
          if p = [] then Inl FileNotFoundError
          else (case parent_error fs p of
                  Some e \<Rightarrow> Inl e
                | None \<Rightarrow> Inr (fs(p := Some (File [])))))"

definition open_write :: "(string \<Rightarrow> node option) \<Rightarrow> string \<Rightarrow> py_error + (string \<Rightarrow> node option)" where
  "open_write = open_create True"


text \<open>
  Reading in text mode translates the line ends \<open>\r\n\<close> and \<open>\r\<close> to \<open>\n\<close>;
  \<open>readline()\<close> on a freshly opened file returns the text up to and including the first
  \<open>\n\<close>, or all of it when there is none.
\<close>

fun universal_newlines :: "string \<Rightarrow> string" where
  "universal_newlines [] = []"
| "universal_newlines [c] = (if c = CR then [LF] else [c])"
| "universal_newlines (c # d # cs) =
     (if c = CR \<and> d = LF then LF # universal_newlines cs
      else if c = CR then LF # universal_newlines (d # cs)
      else c # universal_newlines (d # cs))"

fun readline :: "string \<Rightarrow> string" where
  "readline [] = []"
| "readline (c # cs) = (if c = LF then [c] else c # readline cs)"

subsection \<open>The functions of utils.py\<close>

text \<open>\<open>read_id(path)\<close>.\<close>

definition read_id :: "(string \<Rightarrow> node option) \<Rightarrow> string \<Rightarrow> py_error + string" where
  "read_id fs path =
     (case open_read fs path of
        Inl e \<Rightarrow> Inl e
      | Inr content \<Rightarrow> Inr (readline (universal_newlines content)))"

text \<open>\<open>needs_setup(path, fid_path, token_path)\<close>.\<close>

definition needs_setup :: "(string \<Rightarrow> node option) \<Rightarrow> string \<Rightarrow> string \<Rightarrow> string \<Rightarrow> bool" where
  "needs_setup fs path fid_path token_path =
     (if \<not> path_exists fs path then True
      else \<not> path_exists fs fid_path \<or> \<not> path_exists fs token_path)"




section \<open>gdoc\_shell.py: writing to the document\<close>

record docs_service =
  documents_get :: "string \<Rightarrow> py_error + json"
  documents_batchUpdate :: "string \<Rightarrow> json \<Rightarrow> py_error + json"

definition DATETIME_FORMAT :: string where
  "DATETIME_FORMAT = ''%Y-%m-%d %H:%M:%S''"

text \<open>Sequencing of steps that may raise.\<close>

definition and_then :: "py_error + 'a \<Rightarrow> ('a \<Rightarrow> py_error + 'b) \<Rightarrow> py_error + 'b" where
  "and_then r f = (case r of Inl e \<Rightarrow> Inl e | Inr x \<Rightarrow> f x)"

text \<open>\<open>_build_insert_text(index, text)\<close>.\<close>

definition build_insert_text :: "int \<Rightarrow> string \<Rightarrow> json" where
  "build_insert_text index text =
     JDict [(''insertText'',
             JDict [(''location'', JDict [(''index'', JInt index)]),
                    (''text'', JStr text)])]"

text \<open>\<open>_batch_update(fid, service, requests)\<close>.\<close>

definition batch_update ::
  "string \<Rightarrow> docs_service \<Rightarrow> json list \<Rightarrow> world \<Rightarrow> (py_error + unit) \<times> world" where
  "batch_update fid service requests w =
     (let body = JDict [(''requests'', JList requests)];
          w1 = emit (BatchUpdate fid body) w
      in case documents_batchUpdate service fid body of
           Inl e \<Rightarrow> (Inl e, w1)
         | Inr response \<Rightarrow> (Inr (), w1))"

text \<open>
  The request list of \<open>_write_output\<close>, computed from the fetched document in the order
  of the source.
\<close>

definition insert_table_row :: "json \<Rightarrow> int \<Rightarrow> json" where
  "insert_table_row table_start row_index =
     JDict [(''insertTableRow'',
             JDict [(''tableCellLocation'',
                     JDict [(''tableStartLocation'', JDict [(''index'', table_start)]),
                            (''rowIndex'', JInt row_index),
                            (''columnIndex'', JInt 0)]),
                    (''insertBelow'', JStr ''true'')])]"

definition output_requests :: "host \<Rightarrow> string \<Rightarrow> string \<Rightarrow> json \<Rightarrow> py_error + json list" where
  "output_requests h cmd output document =
     and_then (getpath document [Key ''body'', Key ''content'', Idx (- 2)]) (\<lambda>output_table.
     and_then (getpath output_table [Key ''table'', Key ''tableRows'', Idx (- 1), Key ''tableCells''])
       (\<lambda>table_cells.
     and_then (and_then (getpath table_cells [Idx 2, Key ''startIndex'']) add_one) (\<lambda>index_datetime.
     and_then (and_then (getpath table_cells [Idx 1, Key ''startIndex'']) add_one) (\<lambda>index_output.
     and_then (and_then (getpath table_cells [Idx 0, Key ''startIndex'']) add_one) (\<lambda>index_cmd.
     let now = now_strftime h DATETIME_FORMAT in
     and_then (getitem output_table (Key ''startIndex'')) (\<lambda>table_start.
     and_then (and_then (getpath output_table [Key ''table'', Key ''tableRows'']) len) (\<lambda>n_rows.
     Inr [build_insert_text index_datetime now,
          build_insert_text index_output output,
          build_insert_text index_cmd cmd,
          insert_table_row table_start (n_rows - 1)])))))))"

text \<open>\<open>_write_output(cmd, output, service, fid)\<close>.\<close>

definition write_output ::
  "host \<Rightarrow> string \<Rightarrow> string option \<Rightarrow> docs_service \<Rightarrow> string \<Rightarrow> world
     \<Rightarrow> (py_error + unit) \<times> world" where
  "write_output h cmd output service fid w =
     (case output of
        None \<Rightarrow> (Inr (), w)
      | Some out \<Rightarrow>
          let w1 = emit (DocumentsGet fid) w in
          case documents_get service fid of
            Inl e \<Rightarrow> (Inl e, w1)
          | Inr document \<Rightarrow>
              (case output_requests h cmd out document of
                 Inl e \<Rightarrow> (Inl e, w1)
               | Inr requests \<Rightarrow> batch_update fid service requests w1))"

text \<open>
  The offsets of the text insertions of a request list, in array order, and whether an
  event is a submitted batch.
\<close>

definition insert_text_offsets :: "json list \<Rightarrow> int list" where
  "insert_text_offsets requests =
     concat (map (\<lambda>r. case getpath r [Key ''insertText'', Key ''location'', Key ''index''] of
                        Inr (JInt i) \<Rightarrow> [i]
                      | _ \<Rightarrow> []) requests)"

fun is_batch :: "event \<Rightarrow> bool" where
  "is_batch (BatchUpdate fid body) = True"
| "is_batch e = False"

section \<open>gdoc\_shell.py: the file id\<close>

text \<open>\<open>os.path.join(a, b)\<close>.\<close>

definition path_join :: "string \<Rightarrow> string \<Rightarrow> string" where
  "path_join a b =
     (if b \<noteq> [] \<and> hd b = slash then b
      else if a = [] \<or> last a = slash then a @ b
      else a @ [slash] @ b)"

definition STORAGE_PATH :: "host \<Rightarrow> string" where
  "STORAGE_PATH h = path_join (home_dir h) ''.gdoc_shell''"

definition FILE_ID_PATH :: "host \<Rightarrow> string" where
  "FILE_ID_PATH h = path_join (STORAGE_PATH h) ''fid''"

definition TOKEN_PATH :: "host \<Rightarrow> string" where
  "TOKEN_PATH h = path_join (STORAGE_PATH h) ''token''"

definition DOC_MIMETYPE :: string where
  "DOC_MIMETYPE = ''application/vnd.google-apps.document''"

record drive_service =
  files_create :: "json \<Rightarrow> string \<Rightarrow> py_error + json"

text \<open>\<open>d.get(k)\<close> of a \<open>dict\<close>: \<open>None\<close> for a missing key.\<close>

fun dict_get :: "json \<Rightarrow> string \<Rightarrow> py_error + json" where
  "dict_get (JDict kvs) k = Inr (case map_of kvs k of None \<Rightarrow> JNull | Some v \<Rightarrow> v)"
| "dict_get v k = Inl AttributeError"

text \<open>
  \<open>_create_file(service, filename)\<close>.  Opening the file for writing empties it before
  \<open>f.write(fid)\<close> runs, and \<open>write\<close> raises \<open>TypeError\<close> for anything but a string.
\<close>

definition create_file ::
  "host \<Rightarrow> drive_service \<Rightarrow> string \<Rightarrow> world \<Rightarrow> (py_error + json) \<times> world" where
  "create_file h service filename w =
     (let body = JDict [(''name'', JStr filename), (''mimeType'', JStr DOC_MIMETYPE)];
          w1 = emit (FilesCreate body ''id'') w
      in case and_then (files_create service body ''id'') (\<lambda>response. dict_get response ''id'') of
           Inl e \<Rightarrow> (Inl e, w1)
         | Inr fid \<Rightarrow>
             (case open_write (files w1) (FILE_ID_PATH h) of
                Inl e \<Rightarrow> (Inl e, w1)
              | Inr fs \<Rightarrow>
                  (case fid of
                     JStr s \<Rightarrow> (Inr fid, w1\<lparr>files := fs(FILE_ID_PATH h := Some (File s))\<rparr>)
                   | _ \<Rightarrow> (Inl TypeError, w1\<lparr>files := fs\<rparr>))))"

section \<open>gdoc\_shell.py: the program\<close>




section \<open>Example hosts, services and worlds\<close>

text \<open>
  The whitelist of the repository's test, a machine on which \<open>echo Testing\<close> prints its
  argument and \<open>touch x\<close> prints nothing, a decoder for output that is ASCII, and imports
  that leave the world as it is.
\<close>

definition test_valid_commands :: "string set" where
  "test_valid_commands = {''pwd'', ''ls'', ''touch'', ''echo'', ''more''}"

definition example_run :: "string list \<Rightarrow> py_error + completed_process" where
  "example_run argv =
     (if argv = [''echo'', ''Testing'']
      then Inr \<lparr>returncode = 0, stdout = map of_char ''Testing\<newline>'', stderr = []\<rparr>
      else if argv = [''touch'', ''x'']
      then Inr \<lparr>returncode = 0, stdout = [], stderr = []\<rparr>
      else Inl FileNotFoundError)"

definition ascii_decode :: "bytes \<Rightarrow> py_error + string" where
  "ascii_decode bs =
     (if list_all (\<lambda>b. b < 128) bs then Inr (map (\<lambda>b. char_of (unat b)) bs) else Inl UnicodeDecodeError)"

text \<open>A parser that accepts a command line of exactly one word for one declared positional.\<close>

fun example_parse_args :: "argument list \<Rightarrow> string list \<Rightarrow> py_error + (string \<times> string) list" where
  "example_parse_args [Positional name] [word] = Inr [(name, word)]"
| "example_parse_args arguments argv = Inl (SystemExit 2)"

definition example_host :: host where
  "example_host =
     \<lparr>subprocess_run = example_run,
      decode_utf8 = ascii_decode,
      now_strftime = (\<lambda>format. ''2020-01-01 12:30:00''),
      home_dir = ''/home/user'',
      parse_args = example_parse_args,
      run_imports = (\<lambda>w. (Inr (), w))\<rparr>"

definition empty_world :: world where
  "empty_world = \<lparr>files = Map.empty, events = []\<rparr>"

text \<open>
  A document as \<open>_add_tables\<close> leaves it: a section break, a paragraph, the command
  table, a paragraph, the output table with its header row and one empty row, and the
  closing paragraph.
\<close>

definition example_cell :: "int \<Rightarrow> json" where
  "example_cell i = JDict [(''startIndex'', JInt i), (''endIndex'', JInt (i + 2))]"

definition example_row :: "int \<Rightarrow> json" where
  "example_row i =
     JDict [(''startIndex'', JInt i),
            (''tableCells'', JList [example_cell (i + 1), example_cell (i + 3), example_cell (i + 5)])]"

definition example_output_table :: json where
  "example_output_table =
     JDict [(''startIndex'', JInt 12),
            (''table'', JDict [(''rows'', JInt 2), (''columns'', JInt 3),
                              (''tableRows'', JList [example_row 13, example_row 20])])]"

definition example_document :: json where
  "example_document =
     JDict [(''documentId'', JStr ''doc1''),
            (''body'',
             JDict [(''content'',
                     JList [JDict [(''sectionBreak'', JDict [])],
                            JDict [(''startIndex'', JInt 1), (''paragraph'', JDict [])],
                            JDict [(''startIndex'', JInt 2),
                                   (''table'', JDict [(''rows'', JInt 2), (''columns'', JInt 1)])],
                            JDict [(''startIndex'', JInt 11), (''paragraph'', JDict [])],
                            example_output_table,
                            JDict [(''startIndex'', JInt 27), (''paragraph'', JDict [])]])])]"

definition example_docs :: docs_service where
  "example_docs =
     \<lparr>documents_get = (\<lambda>fid. Inr example_document),
      documents_batchUpdate = (\<lambda>fid body. Inr (JDict [(''documentId'', JStr fid)]))\<rparr>"

text \<open>A Drive that answers with the id \<open>1a2B3c\<close>, and a home with the storage directory.\<close>

definition example_drive :: drive_service where
  "example_drive = \<lparr>files_create = (\<lambda>body fields. Inr (JDict [(''id'', JStr ''1a2B3c'')]))\<rparr>"

definition home_world :: world where
  "home_world = \<lparr>files = [''/home/user/.gdoc_shell'' \<mapsto> Dir], events = []\<rparr>"




text \<open>The storage directory after set-up: the file id and the token are there.\<close>

definition stored_files :: "string \<Rightarrow> node option" where
  "stored_files =
     [''/home/user/.gdoc_shell'' \<mapsto> Dir,
      ''/home/user/.gdoc_shell/fid'' \<mapsto> File ''1a2B3c'',
      ''/home/user/.gdoc_shell/token'' \<mapsto> File ''{}'']"

section \<open>Facts about the model\<close>

lemma split_from_Nil_iff:
  "split_from s tok = [] \<longleftrightarrow> tok = [] \<and> list_all isspace s"
  by (induction s arbitrary: tok) auto

lemma str_split_Nil_iff: "str_split s = [] \<longleftrightarrow> list_all isspace s"
  by (simp add: str_split_def split_from_Nil_iff)

lemma new_events_emit: "new_events w (emit e w) = [e]"
  by (simp add: new_events_def emit_def)

lemma new_events_emit2: "new_events w (emit e2 (emit e1 w)) = [e1, e2]"
  by (simp add: new_events_def emit_def)

lemma sentinels_nonempty: "OUTPUT_INVALID_CMD \<noteq> []" "OUTPUT_NO_OUTPUT \<noteq> []"
  by (simp_all add: OUTPUT_INVALID_CMD_def OUTPUT_NO_OUTPUT_def)

lemma LF_neq_CR: "LF \<noteq> CR"
  by (simp add: LF_def CR_def)

lemma universal_newlines_Cons: "c \<noteq> CR \<Longrightarrow> universal_newlines (c # t) = c # universal_newlines t"
  by (cases t) simp_all

lemma universal_newlines_append:
  "CR \<notin> set l \<Longrightarrow> universal_newlines (l @ t) = l @ universal_newlines t"
  by (induction l) (auto simp add: universal_newlines_Cons)

lemma universal_newlines_id: "CR \<notin> set s \<Longrightarrow> universal_newlines s = s"
  using universal_newlines_append [of s "[]"] by simp

lemma readline_no_LF: "LF \<notin> set s \<Longrightarrow> readline s = s"
  by (induction s) auto

lemma readline_universal_newlines:
  "readline (universal_newlines s) =
     takeWhile (\<lambda>c. c \<noteq> LF \<and> c \<noteq> CR) s
     @ (if list_all (\<lambda>c. c \<noteq> LF \<and> c \<noteq> CR) s then [] else [LF])"
  using LF_neq_CR by (induction s rule: universal_newlines.induct) auto

lemma path_join_nonempty: "b \<noteq> [] \<Longrightarrow> path_join a b \<noteq> []"
  by (simp add: path_join_def)

lemma FILE_ID_PATH_nonempty: "FILE_ID_PATH h \<noteq> []"
  by (simp add: FILE_ID_PATH_def path_join_nonempty)

lemma read_id_file:
  "p \<noteq> [] \<Longrightarrow> fs p = Some (File s) \<Longrightarrow> read_id fs p = Inr (readline (universal_newlines s))"
  by (simp add: read_id_def open_read_def node_at_def)

lemma getpath_append:
  "getpath v (ks @ ls) = (case getpath v ks of Inl e \<Rightarrow> Inl e | Inr u \<Rightarrow> getpath u ls)"
  by (induction ks arbitrary: v) (simp_all split: sum.splits)

lemma split_rm: "str_split ''rm -rf some'' = [''rm'', ''-rf'', ''some'']"
  by (simp add: str_split_def isspace_def)

lemma split_echo: "str_split ''echo Testing'' = [''echo'', ''Testing'']"
  by (simp add: str_split_def isspace_def)

lemma split_touch: "str_split ''touch x'' = [''touch'', ''x'']"
  by (simp add: str_split_def isspace_def)

lemma decode_testing: "ascii_decode (map of_char ''Testing\<newline>'') = Inr ''Testing\<newline>''"
  by code_simp

lemma strip_testing: "str_strip ''Testing\<newline>'' = ''Testing''"
  by (simp add: str_strip_def isspace_def)

lemma split_echo_rm: "str_split ''echo ; rm -rf /'' = [''echo'', '';'', ''rm'', ''-rf'', ''/'']"
  by (simp add: str_split_def isspace_def)

lemma example_paths:
  "STORAGE_PATH example_host = ''/home/user/.gdoc_shell''"
  "FILE_ID_PATH example_host = ''/home/user/.gdoc_shell/fid''"
  "TOKEN_PATH example_host = ''/home/user/.gdoc_shell/token''"
  by (simp_all add: STORAGE_PATH_def FILE_ID_PATH_def TOKEN_PATH_def path_join_def example_host_def
        slash_def)

lemma example_dirname:
  "dirname ''/home/user/.gdoc_shell/fid'' = ''/home/user/.gdoc_shell''"
  "dirname ''log/gdoc_shell.log'' = ''log''"
  "dirname ''log'' = []"
  by (simp_all add: dirname_def slash_def)

lemma parent_error_in_dir: "fs (dirname p) = Some Dir \<Longrightarrow> parent_error fs p = None"
  by (simp add: parent_error.simps [of fs p] Let_def)



section \<open>The command gate: claims\<close>

text \<open>
  C2.  A command that is empty or consists only of whitespace yields \<open>None\<close> whatever
  the whitelist is, and leaves the world as it was; \<open>None\<close> is neither the
  invalid-command string nor the no-output string.
\<close>

theorem execute_command_blank:
  assumes "\<forall>c \<in> set cmd. isspace c"
  shows "execute_command h cmd valid_commands w = (Inr None, w)
         \<and> (None :: string option) \<noteq> Some OUTPUT_INVALID_CMD
         \<and> (None :: string option) \<noteq> Some OUTPUT_NO_OUTPUT"
proof -
  from assms have "str_split cmd = []"
    by (simp add: str_split_Nil_iff list_all_iff)
  then show ?thesis
    by (simp add: execute_command_def)
qed

theorem execute_command_blank_witness:
  "execute_command example_host ''  '' test_valid_commands empty_world = (Inr None, empty_world)
   \<and> execute_command example_host [] {} empty_world = (Inr None, empty_world)"
proof -
  have 1: "\<forall>c \<in> set ''  ''. isspace c" by (simp add: isspace_def)
  have 2: "\<forall>c \<in> set ([] :: string). isspace c" by simp
  from execute_command_blank [OF 1] execute_command_blank [OF 2] show ?thesis by simp
qed

text \<open>
  C1.  When the command has a first token and that token is not in the whitelist, the
  result is the invalid-command string, and the only thing done is one warning handed to
  the logger: \<open>subprocess.run\<close> is not called.
\<close>

theorem execute_command_rejects:
  assumes "str_split cmd \<noteq> []" and "hd (str_split cmd) \<notin> valid_commands"
  shows "fst (execute_command h cmd valid_commands w) = Inr (Some OUTPUT_INVALID_CMD)
         \<and> new_events w (snd (execute_command h cmd valid_commands w)) =
             [LogRecord WARNING ''Attempted command %s failed since is not in valid commands list'' [cmd]]
         \<and> \<not> spawns h cmd valid_commands w"
  using assms
  by (simp add: execute_command_def spawns_def new_events_emit)

theorem execute_command_rejects_witness:
  "str_split ''rm -rf some'' = [''rm'', ''-rf'', ''some'']
   \<and> ''rm'' \<notin> test_valid_commands
   \<and> fst (execute_command example_host ''rm -rf some'' test_valid_commands empty_world) =
       Inr (Some OUTPUT_INVALID_CMD)
   \<and> \<not> spawns example_host ''rm -rf some'' test_valid_commands empty_world"
proof -
  have 1: "str_split ''rm -rf some'' \<noteq> []" by (simp add: split_rm)
  have 2: "hd (str_split ''rm -rf some'') \<notin> test_valid_commands"
    by (simp add: split_rm test_valid_commands_def)
  from execute_command_rejects [OF 1 2, of example_host empty_world] 2 show ?thesis
    by (simp add: split_rm)
qed

text \<open>
  C3.  When the first token is in the whitelist and the process has run and its output
  has been decoded, the result is the output with surrounding whitespace removed if that
  is not empty, and the no-output string if it is.  Whatever happens, the result is never
  the empty string.
\<close>

theorem execute_command_runs:
  assumes "str_split cmd \<noteq> []" and "hd (str_split cmd) \<in> valid_commands"
  shows "(\<forall>result decoded.
            subprocess_run h (str_split cmd) = Inr result \<longrightarrow>
            decode_utf8 h (stdout result) = Inr decoded \<longrightarrow>
            fst (execute_command h cmd valid_commands w) =
              Inr (Some (if str_strip decoded \<noteq> [] then str_strip decoded else OUTPUT_NO_OUTPUT)))
         \<and> fst (execute_command h cmd valid_commands w) \<noteq> Inr (Some [])"
  using assms sentinels_nonempty
  by (auto simp add: execute_command_def Let_def split: sum.splits)

theorem execute_command_runs_witness:
  "fst (execute_command example_host ''echo Testing'' test_valid_commands empty_world) =
     Inr (Some ''Testing'')
   \<and> fst (execute_command example_host ''touch x'' test_valid_commands empty_world) =
     Inr (Some OUTPUT_NO_OUTPUT)"
proof -
  have 1: "str_split ''echo Testing'' \<noteq> []" by (simp add: split_echo)
  have 2: "hd (str_split ''echo Testing'') \<in> test_valid_commands"
    by (simp add: split_echo test_valid_commands_def)
  have 3: "subprocess_run example_host (str_split ''echo Testing'') =
             Inr \<lparr>returncode = 0, stdout = map of_char ''Testing\<newline>'', stderr = []\<rparr>"
    by (simp add: split_echo example_host_def example_run_def)
  have 4: "decode_utf8 example_host (map of_char ''Testing\<newline>'') = Inr ''Testing\<newline>''"
    by (simp only: example_host_def host.select_convs decode_testing)
  have 5: "str_split ''touch x'' \<noteq> []" by (simp add: split_touch)
  have 6: "hd (str_split ''touch x'') \<in> test_valid_commands"
    by (simp add: split_touch test_valid_commands_def)
  have 7: "subprocess_run example_host (str_split ''touch x'') =
             Inr \<lparr>returncode = 0, stdout = [], stderr = []\<rparr>"
    by (simp add: split_touch example_host_def example_run_def)
  have 8: "decode_utf8 example_host [] = Inr []"
    by (simp add: example_host_def ascii_decode_def)
  from execute_command_runs [OF 1 2, of example_host empty_world] 3 4
  have a: "fst (execute_command example_host ''echo Testing'' test_valid_commands empty_world) =
     Inr (Some ''Testing'')"
    by (simp add: strip_testing)
  from execute_command_runs [OF 5 6, of example_host empty_world] 7 8
  have b: "fst (execute_command example_host ''touch x'' test_valid_commands empty_world) =
     Inr (Some OUTPUT_NO_OUTPUT)"
    by (simp add: str_strip_def)
  from a b show ?thesis by simp
qed

text \<open>
  C9.  Whether a process is started depends on the first token only: two commands with
  the same first token are both run or both refused, on any machine and in any world, and
  they are run exactly when that token is in the whitelist.
\<close>

theorem gate_first_token_only:
  assumes "str_split c1 \<noteq> []" and "str_split c2 \<noteq> []"
    and "hd (str_split c1) = hd (str_split c2)"
  shows "spawns h1 c1 valid_commands w1 = spawns h2 c2 valid_commands w2
         \<and> spawns h1 c1 valid_commands w1 = (hd (str_split c1) \<in> valid_commands)"
  using assms
  by (auto simp add: execute_command_def spawns_def Let_def new_events_emit new_events_emit2
           split: sum.splits)

theorem gate_first_token_only_witness:
  "hd (str_split ''echo Testing'') = hd (str_split ''echo ; rm -rf /'')
   \<and> spawns example_host ''echo Testing'' test_valid_commands empty_world
   \<and> spawns example_host ''echo ; rm -rf /'' test_valid_commands empty_world
   \<and> \<not> spawns example_host ''echo ; rm -rf /'' {''ls''} empty_world"
proof -
  have 1: "str_split ''echo Testing'' \<noteq> []" by (simp add: split_echo)
  have 2: "str_split ''echo ; rm -rf /'' \<noteq> []" by (simp add: split_echo_rm)
  have 3: "hd (str_split ''echo Testing'') = hd (str_split ''echo ; rm -rf /'')"
    by (simp add: split_echo split_echo_rm)
  from gate_first_token_only [OF 1 2 3, of example_host test_valid_commands empty_world
      example_host empty_world]
    gate_first_token_only [OF 1 2 3, of example_host "{''ls''}" empty_world
      example_host empty_world]
  show ?thesis
    by (auto simp add: split_echo split_echo_rm test_valid_commands_def)
qed

section \<open>Writing the output: claims\<close>

text \<open>
  C4.  With output \<open>None\<close>, \<open>_write_output\<close> returns at once: the world is the same
  afterwards, so the document is not fetched and no batch is submitted, whatever the
  command, the service and the file id are.
\<close>

theorem write_output_none:
  "write_output h cmd None service fid w = (Inr (), w)"
  by (simp add: write_output_def)

text \<open>
  C5.  With an output that is not \<open>None\<close> and a document whose block before the last is
  the output table (with a start index, rows, and three cells with start indexes in its
  last row), \<open>_write_output\<close> fetches the document and submits one batch of four
  requests, written out below as the service receives them, in this order: insert the
  date and time one past the start of the third cell, insert the output one past the
  start of the second, insert the command one past the start of the first, and insert a
  row below the last row of the table (row index: number of rows minus one, column 0).
  The text offsets are in the order of the array; they descend when the cells' start
  indexes ascend.
\<close>

theorem write_output_batch:
  fixes h :: host and cmd "output" :: string and i0 i1 i2 :: int and table_start :: json
    and rows :: "json list" and requests :: "json list"
  defines "requests \<equiv>
     [JDict [(''insertText'',
              JDict [(''location'', JDict [(''index'', JInt (i2 + 1))]),
                     (''text'', JStr (now_strftime h ''%Y-%m-%d %H:%M:%S''))])],
      JDict [(''insertText'',
              JDict [(''location'', JDict [(''index'', JInt (i1 + 1))]),
                     (''text'', JStr output)])],
      JDict [(''insertText'',
              JDict [(''location'', JDict [(''index'', JInt (i0 + 1))]),
                     (''text'', JStr cmd)])],
      JDict [(''insertTableRow'',
              JDict [(''tableCellLocation'',
                      JDict [(''tableStartLocation'', JDict [(''index'', table_start)]),
                             (''rowIndex'', JInt (int (length rows) - 1)),
                             (''columnIndex'', JInt 0)]),
                     (''insertBelow'', JStr ''true'')])]]"
  assumes "documents_get service fid = Inr document"
    and "getpath document [Key ''body'', Key ''content'', Idx (- 2)] = Inr output_table"
    and "getpath output_table [Key ''table'', Key ''tableRows''] = Inr (JList rows)"
    and "getpath (JList rows) [Idx (- 1), Key ''tableCells''] = Inr table_cells"
    and "getpath table_cells [Idx 2, Key ''startIndex''] = Inr (JInt i2)"
    and "getpath table_cells [Idx 1, Key ''startIndex''] = Inr (JInt i1)"
    and "getpath table_cells [Idx 0, Key ''startIndex''] = Inr (JInt i0)"
    and "getitem output_table (Key ''startIndex'') = Inr table_start"
  shows "snd (write_output h cmd (Some output) service fid w) =
           w\<lparr>events := events w @
              [DocumentsGet fid, BatchUpdate fid (JDict [(''requests'', JList requests)])]\<rparr>
         \<and> fst (write_output h cmd (Some output) service fid w) =
             (case documents_batchUpdate service fid (JDict [(''requests'', JList requests)]) of
                Inl e \<Rightarrow> Inl e | Inr response \<Rightarrow> Inr ())
         \<and> length (filter is_batch (new_events w (snd (write_output h cmd (Some output) service fid w)))) = 1
         \<and> length requests = 4
         \<and> insert_text_offsets requests = [i2 + 1, i1 + 1, i0 + 1]
         \<and> (i0 < i1 \<and> i1 < i2 \<longrightarrow> sorted_wrt (>) (insert_text_offsets requests))"
proof -
  have cells: "getpath output_table [Key ''table'', Key ''tableRows'', Idx (- 1), Key ''tableCells'']
                 = Inr table_cells"
    using assms(4,5)
      getpath_append [of output_table "[Key ''table'', Key ''tableRows'']"
        "[Idx (- 1), Key ''tableCells'']"]
    by simp
  have reqs: "output_requests h cmd output document = Inr requests"
    unfolding output_requests_def using assms(3,4,6,7,8,9) cells
    by (simp add: and_then_def requests_def build_insert_text_def insert_table_row_def
          DATETIME_FORMAT_def)
  have offs: "insert_text_offsets requests = [i2 + 1, i1 + 1, i0 + 1]"
    by (simp add: requests_def insert_text_offsets_def)
  have run: "snd (write_output h cmd (Some output) service fid w) =
           w\<lparr>events := events w @
              [DocumentsGet fid, BatchUpdate fid (JDict [(''requests'', JList requests)])]\<rparr>"
    using assms(2) reqs
    by (simp add: write_output_def batch_update_def Let_def emit_def split: sum.splits)
  have res: "fst (write_output h cmd (Some output) service fid w) =
             (case documents_batchUpdate service fid (JDict [(''requests'', JList requests)]) of
                Inl e \<Rightarrow> Inl e | Inr response \<Rightarrow> Inr ())"
    using assms(2) reqs
    by (simp add: write_output_def batch_update_def Let_def split: sum.splits)
  have four: "length requests = 4"
    by (simp add: requests_def)
  show ?thesis
    using run res offs four by (simp add: new_events_def)
qed

theorem write_output_batch_witness:
  "snd (write_output example_host ''pwd'' (Some ''/some/path'') example_docs ''doc1'' empty_world) =
     empty_world\<lparr>events :=
       [DocumentsGet ''doc1'',
        BatchUpdate ''doc1''
          (JDict [(''requests'',
                   JList [JDict [(''insertText'',
                                  JDict [(''location'', JDict [(''index'', JInt 26)]),
                                         (''text'', JStr ''2020-01-01 12:30:00'')])],
                          JDict [(''insertText'',
                                  JDict [(''location'', JDict [(''index'', JInt 24)]),
                                         (''text'', JStr ''/some/path'')])],
                          JDict [(''insertText'',
                                  JDict [(''location'', JDict [(''index'', JInt 22)]),
                                         (''text'', JStr ''pwd'')])],
                          JDict [(''insertTableRow'',
                                  JDict [(''tableCellLocation'',
                                          JDict [(''tableStartLocation'', JDict [(''index'', JInt 12)]),
                                                 (''rowIndex'', JInt 1),
                                                 (''columnIndex'', JInt 0)]),
                                         (''insertBelow'', JStr ''true'')])]])])]\<rparr>"
proof -
  have 1: "documents_get example_docs ''doc1'' = Inr example_document"
    by (simp add: example_docs_def)
  have 2: "getpath example_document [Key ''body'', Key ''content'', Idx (- 2)] = Inr example_output_table"
    by (simp add: example_document_def seq_index_def)
  have 3: "getpath example_output_table [Key ''table'', Key ''tableRows'']
             = Inr (JList [example_row 13, example_row 20])"
    by (simp add: example_output_table_def)
  have 4: "getpath (JList [example_row 13, example_row 20]) [Idx (- 1), Key ''tableCells'']
             = Inr (JList [example_cell 21, example_cell 23, example_cell 25])"
    by (simp add: example_row_def seq_index_def)
  have 5: "getpath (JList [example_cell 21, example_cell 23, example_cell 25]) [Idx 2, Key ''startIndex'']
             = Inr (JInt 25)"
    by (simp add: example_cell_def seq_index_def)
  have 6: "getpath (JList [example_cell 21, example_cell 23, example_cell 25]) [Idx 1, Key ''startIndex'']
             = Inr (JInt 23)"
    by (simp add: example_cell_def seq_index_def)
  have 7: "getpath (JList [example_cell 21, example_cell 23, example_cell 25]) [Idx 0, Key ''startIndex'']
             = Inr (JInt 21)"
    by (simp add: example_cell_def seq_index_def)
  have 8: "getitem example_output_table (Key ''startIndex'') = Inr (JInt 12)"
    by (simp add: example_output_table_def)
  from write_output_batch [OF 1 2 3 4 5 6 7 8, of example_host "''pwd''" "''/some/path''" empty_world]
  show ?thesis
    by (simp add: example_host_def empty_world_def)
qed

section \<open>utils.py: claims\<close>

text \<open>
  C6.  \<open>needs_setup\<close> is true exactly when the storage directory, the file-id file or
  the token file does not exist; one of them missing is enough.
\<close>

theorem needs_setup_iff:
  "needs_setup fs path fid_path token_path \<longleftrightarrow>
     \<not> path_exists fs path \<or> \<not> path_exists fs fid_path \<or> \<not> path_exists fs token_path"
  by (simp add: needs_setup_def)

theorem needs_setup_iff_witness:
  "needs_setup (files home_world) (STORAGE_PATH example_host) (FILE_ID_PATH example_host)
     (TOKEN_PATH example_host)
   \<and> path_exists (files home_world) (STORAGE_PATH example_host)
   \<and> \<not> needs_setup stored_files ''/home/user/.gdoc_shell'' ''/home/user/.gdoc_shell/fid''
         ''/home/user/.gdoc_shell/token''
   \<and> needs_setup (stored_files(''/home/user/.gdoc_shell/token'' := None)) ''/home/user/.gdoc_shell''
         ''/home/user/.gdoc_shell/fid'' ''/home/user/.gdoc_shell/token''"
proof -
  have 1: "path_exists (files home_world) (STORAGE_PATH example_host)"
    by (simp add: path_exists_def node_at_def home_world_def example_paths)
  have 2: "\<not> path_exists (files home_world) (FILE_ID_PATH example_host)"
    by (simp add: path_exists_def node_at_def home_world_def example_paths)
  have 3: "path_exists stored_files ''/home/user/.gdoc_shell''
           \<and> path_exists stored_files ''/home/user/.gdoc_shell/fid''
           \<and> path_exists stored_files ''/home/user/.gdoc_shell/token''"
    by (simp add: path_exists_def node_at_def stored_files_def)
  have 4: "\<not> path_exists (stored_files(''/home/user/.gdoc_shell/token'' := None))
               ''/home/user/.gdoc_shell/token''"
    by (simp add: path_exists_def node_at_def)
  from 1 2 3 4
    needs_setup_iff [of "files home_world" "STORAGE_PATH example_host" "FILE_ID_PATH example_host"
      "TOKEN_PATH example_host"]
    needs_setup_iff [of stored_files "''/home/user/.gdoc_shell''" "''/home/user/.gdoc_shell/fid''"
      "''/home/user/.gdoc_shell/token''"]
    needs_setup_iff [of "stored_files(''/home/user/.gdoc_shell/token'' := None)"
      "''/home/user/.gdoc_shell''" "''/home/user/.gdoc_shell/fid''" "''/home/user/.gdoc_shell/token''"]
  show ?thesis by blast
qed

text \<open>
  C7.  When \<open>_create_file\<close> succeeds with an identifier that has no line break in it, the
  file-id file holds exactly the identifier, with no newline after it, and \<open>read_id\<close> on
  that path returns exactly the identifier.
\<close>

theorem create_file_read_id:
  assumes "create_file h service filename w = (Inr (JStr s), w')"
    and "LF \<notin> set s" and "CR \<notin> set s"
  shows "files w' (FILE_ID_PATH h) = Some (File s) \<and> read_id (files w') (FILE_ID_PATH h) = Inr s"
proof -
  from assms(1) have stored: "files w' (FILE_ID_PATH h) = Some (File s)"
    by (auto simp add: create_file_def Let_def split: sum.splits json.splits)
  with assms(2,3) show ?thesis
    by (simp add: read_id_file FILE_ID_PATH_nonempty universal_newlines_id readline_no_LF)
qed

theorem create_file_read_id_witness:
  "fst (create_file example_host example_drive ''gdoc shell'' home_world) = Inr (JStr ''1a2B3c'')
   \<and> read_id (files (snd (create_file example_host example_drive ''gdoc shell'' home_world)))
         ''/home/user/.gdoc_shell/fid'' = Inr ''1a2B3c''"
proof -
  have 1: "fst (create_file example_host example_drive ''gdoc shell'' home_world) = Inr (JStr ''1a2B3c'')"
    by (simp add: create_file_def example_drive_def and_then_def emit_def home_world_def
          open_write_def open_create_def node_at_def parent_error_in_dir example_paths
          example_dirname Let_def)
  then have 2: "create_file example_host example_drive ''gdoc shell'' home_world =
      (Inr (JStr ''1a2B3c''), snd (create_file example_host example_drive ''gdoc shell'' home_world))"
    by (metis prod.collapse)
  have 3: "LF \<notin> set ''1a2B3c''" by (simp add: LF_def)
  have 4: "CR \<notin> set ''1a2B3c''" by (simp add: CR_def)
  from create_file_read_id [OF 2 3 4] 1 show ?thesis
    by (simp add: example_paths)
qed

text \<open>
  C10 (amended).  \<open>read_id\<close> returns the first line of the file as text mode delivers
  it, and nothing after it.  The characters before the first line end are returned as
  they are stored, none trimmed; the line end, stored as \<open>\n\<close>, as \<open>\r\n\<close> or as \<open>\r\<close>, is
  returned as the one character \<open>\n\<close>; a file without a line end is returned whole.  So a
  file holding one line ended by a newline, as a PID lock file does, is read back as a
  string that still ends in a newline.
\<close>

theorem read_id_first_line:
  assumes "path \<noteq> []" and "fs path = Some (File content)"
    and "LF \<notin> set line" and "CR \<notin> set line"
  shows "read_id fs path =
           Inr (takeWhile (\<lambda>c. c \<noteq> LF \<and> c \<noteq> CR) content
                @ (if list_all (\<lambda>c. c \<noteq> LF \<and> c \<noteq> CR) content then [] else [LF]))
         \<and> (content = line \<longrightarrow> read_id fs path = Inr line)
         \<and> (content = line @ LF # tail \<longrightarrow> read_id fs path = Inr (line @ [LF]))
         \<and> (content = line @ CR # tail \<longrightarrow> read_id fs path = Inr (line @ [LF]))"
proof -
  have r: "read_id fs path =
           Inr (takeWhile (\<lambda>c. c \<noteq> LF \<and> c \<noteq> CR) content
                @ (if list_all (\<lambda>c. c \<noteq> LF \<and> c \<noteq> CR) content then [] else [LF]))"
    using assms(1,2) by (simp add: read_id_file readline_universal_newlines)
  have t: "takeWhile (\<lambda>c. c \<noteq> LF \<and> c \<noteq> CR) (line @ t) =
             line @ takeWhile (\<lambda>c. c \<noteq> LF \<and> c \<noteq> CR) t" for t
    by (rule takeWhile_append2) (use assms(3,4) in auto)
  have a: "list_all (\<lambda>c. c \<noteq> LF \<and> c \<noteq> CR) line"
    using assms(3,4) by (auto simp add: list_all_iff)
  from a t [of "[]"] have whole: "content = line \<longrightarrow> read_id fs path = Inr line"
    by (simp add: r)
  from a t [of "LF # tail"] have lf: "content = line @ LF # tail \<longrightarrow> read_id fs path = Inr (line @ [LF])"
    by (simp add: r)
  from a t [of "CR # tail"] have cr: "content = line @ CR # tail \<longrightarrow> read_id fs path = Inr (line @ [LF])"
    by (simp add: r)
  from r whole lf cr show ?thesis by simp
qed

theorem read_id_first_line_witness:
  "read_id [''gdoc_shell.pid'' \<mapsto> File ('' 4242 '' @ [LF])] ''gdoc_shell.pid'' = Inr ('' 4242 '' @ [LF])
   \<and> read_id [''notes'' \<mapsto> File (''first'' @ CR # LF # ''second'')] ''notes'' = Inr (''first'' @ [LF])
   \<and> read_id [''fid'' \<mapsto> File ''1a2B3c''] ''fid'' = Inr ''1a2B3c''"
proof -
  have 1: "''gdoc_shell.pid'' \<noteq> []" "''notes'' \<noteq> []" "''fid'' \<noteq> []" by simp_all
  have 2: "LF \<notin> set '' 4242 ''" "LF \<notin> set ''first''" "LF \<notin> set ''1a2B3c''"
    by (simp_all add: LF_def)
  have 3: "CR \<notin> set '' 4242 ''" "CR \<notin> set ''first''" "CR \<notin> set ''1a2B3c''"
    by (simp_all add: CR_def)
  have a: "[''gdoc_shell.pid'' \<mapsto> File ('' 4242 '' @ [LF])] ''gdoc_shell.pid''
             = Some (File ('' 4242 '' @ [LF]))"
    by simp
  have b: "[''notes'' \<mapsto> File (''first'' @ CR # LF # ''second'')] ''notes''
             = Some (File (''first'' @ CR # LF # ''second''))"
    by simp
  have c: "[''fid'' \<mapsto> File ''1a2B3c''] ''fid'' = Some (File ''1a2B3c'')"
    by simp
  from read_id_first_line [of "''gdoc_shell.pid''" "[''gdoc_shell.pid'' \<mapsto> File ('' 4242 '' @ [LF])]"
      "'' 4242 '' @ [LF]" "'' 4242 ''" "[]", OF 1(1) a 2(1) 3(1), THEN conjunct2, THEN conjunct2,
      THEN conjunct1]
  have x: "read_id [''gdoc_shell.pid'' \<mapsto> File ('' 4242 '' @ [LF])] ''gdoc_shell.pid''
             = Inr ('' 4242 '' @ [LF])"
    by simp
  from read_id_first_line [of "''notes''" "[''notes'' \<mapsto> File (''first'' @ CR # LF # ''second'')]"
      "''first'' @ CR # LF # ''second''" "''first''" "LF # ''second''", OF 1(2) b 2(2) 3(2),
      THEN conjunct2, THEN conjunct2, THEN conjunct2]
  have y: "read_id [''notes'' \<mapsto> File (''first'' @ CR # LF # ''second'')] ''notes'' = Inr (''first'' @ [LF])"
    by simp
  from read_id_first_line [of "''fid''" "[''fid'' \<mapsto> File ''1a2B3c'']" "''1a2B3c''" "''1a2B3c''" "[]",
      OF 1(3) c 2(3) 3(3), THEN conjunct2, THEN conjunct1]
  have z: "read_id [''fid'' \<mapsto> File ''1a2B3c''] ''fid'' = Inr ''1a2B3c''"
    by simp
  from x y z show ?thesis by simp
qed

text \<open>
  The stored line is not always returned character for character: a PID file whose line
  ends in \<open>\r\n\<close> is read back ending in \<open>\n\<close> alone.
\<close>

theorem read_id_crlf_counterexample:
  "read_id [''gdoc_shell.pid'' \<mapsto> File (''4242'' @ [CR, LF])] ''gdoc_shell.pid'' = Inr (''4242'' @ [LF])
   \<and> ''4242'' @ [LF] \<noteq> ''4242'' @ [CR, LF]"
  by (simp add: read_id_def open_read_def node_at_def LF_def CR_def)

section \<open>The command line: claims\<close>




end
